theory Spec2Isabelle
  imports Complex_Main
begin

section \<open>Band indices of the Landsat Level-1 / Level-2 comparison notebook\<close>

text \<open>
  The notebook \<^verbatim>\<open>Landsat8_Level1_Level2_Comparison.ipynb\<close> defines one function:
  \<^verbatim>\<open>
  def calculate_band_indices(dc):
      dc['ndvi'] = (dc.nir - dc.red)/(dc.nir + dc.red)
      dc['ndwi'] = (dc.green - dc.nir)/(dc.green + dc.nir)
      dc['mndwi'] = (dc.green - dc.swir1)/(dc.nir + dc.swir1)
      return(dc)
  \<close>
  \<open>dc\<close> is an xarray Dataset as loaded from the data cube; \<open>dc.nir\<close> reads the
  data variable \<open>nir\<close> (and raises AttributeError when there is none), the operators
  are xarray's elementwise arithmetic, and \<open>dc['ndvi'] = ...\<close> stores a data variable
  in the very object the caller passed.
\<close>

subsection \<open>Samples\<close>

text \<open>
  Modelled from the spec: the element type of a band. The notebook does not fix it; the
  specification says bands hold floating-point reflectance values, which may be not-a-number,
  and that a zero denominator yields a signed infinity or not-a-number. A sample is therefore
  a finite value, one of the two infinities, or not-a-number. Finite arithmetic is exact:
  rounding to binary64, overflow and the sign of zero are not tracked.
\<close>

datatype sample = Fin real | PInf | NInf | NaN

fun fneg :: "sample \<Rightarrow> sample" where
  "fneg (Fin x) = Fin (- x)"
| "fneg PInf = NInf"
| "fneg NInf = PInf"
| "fneg NaN = NaN"

text \<open>Addition: not-a-number propagates, and so does an infinity, but for
  \<open>inf + (-inf)\<close>, which is not-a-number.\<close>

fun fadd :: "sample \<Rightarrow> sample \<Rightarrow> sample" where
  "fadd NaN _ = NaN"
| "fadd _ NaN = NaN"
| "fadd (Fin x) (Fin y) = Fin (x + y)"
| "fadd (Fin x) PInf = PInf"
| "fadd (Fin x) NInf = NInf"
| "fadd PInf (Fin y) = PInf"
| "fadd NInf (Fin y) = NInf"
| "fadd PInf PInf = PInf"
| "fadd NInf NInf = NInf"
| "fadd PInf NInf = NaN"
| "fadd NInf PInf = NaN"

definition fsub :: "sample \<Rightarrow> sample \<Rightarrow> sample" where
  "fsub a b = fadd a (fneg b)"

text \<open>
  True division. A zero divisor raises nothing: a non-zero finite dividend gives the
  infinity of its sign, \<open>0/0\<close> gives not-a-number. (HOL's own \<open>x / 0\<close> is \<open>0\<close>, so
  the zero divisor is a branch of its own.)
\<close>

fun fdiv :: "sample \<Rightarrow> sample \<Rightarrow> sample" where
  "fdiv NaN _ = NaN"
| "fdiv _ NaN = NaN"
| "fdiv (Fin x) (Fin y) =
     (if y = 0 then (if x = 0 then NaN else if 0 < x then PInf else NInf)
      else Fin (x / y))"
| "fdiv (Fin x) PInf = Fin 0"
| "fdiv (Fin x) NInf = Fin 0"
| "fdiv PInf (Fin y) = (if 0 \<le> y then PInf else NInf)"
| "fdiv NInf (Fin y) = (if 0 \<le> y then NInf else PInf)"
| "fdiv PInf PInf = NaN"
| "fdiv PInf NInf = NaN"
| "fdiv NInf PInf = NaN"
| "fdiv NInf NInf = NaN"

subsection \<open>Labelled arrays and the stack\<close>

text \<open>
  A DataArray has named dimensions and one sample at every position; a position gives
  the index along each dimension by name. A Dataset holds the length of every dimension
  (one length per name, shared by all its variables) and its data variables by name.
  The shape of a variable is the lengths of its dimensions.
\<close>

type_synonym index = "string \<Rightarrow> nat"

record dataarray =
  dims :: "string list"
  data :: "index \<Rightarrow> sample"

record dataset =
  sizes :: "string \<Rightarrow> nat"
  data_vars :: "string \<rightharpoonup> dataarray"

definition shape :: "dataset \<Rightarrow> dataarray \<Rightarrow> nat list" where
  "shape dc v = map (sizes dc) (dims v)"

text \<open>
  Arithmetic on two variables of one Dataset is elementwise by dimension name. The result
  has the dimensions of the left operand followed by those only the right operand has;
  an operand is repeated along a dimension it lacks. Nothing is raised, whatever the
  dimensions are.
\<close>

definition binary_op :: "(sample \<Rightarrow> sample \<Rightarrow> sample) \<Rightarrow> dataarray \<Rightarrow> dataarray \<Rightarrow> dataarray" where
  "binary_op f a b =
     \<lparr>dims = dims a @ filter (\<lambda>d. d \<notin> set (dims a)) (dims b),
      data = (\<lambda>idx. f (data a idx) (data b idx))\<rparr>"

definition da_sub :: "dataarray \<Rightarrow> dataarray \<Rightarrow> dataarray" where
  "da_sub = binary_op fsub"

definition da_add :: "dataarray \<Rightarrow> dataarray \<Rightarrow> dataarray" where
  "da_add = binary_op fadd"

definition da_truediv :: "dataarray \<Rightarrow> dataarray \<Rightarrow> dataarray" where
  "da_truediv = binary_op fdiv"

subsection \<open>Attribute access, item assignment, exceptions\<close>

datatype error = AttributeError string

text \<open>\<open>dc.name\<close>: the data variable of that name, or AttributeError.\<close>

definition getattr :: "dataset \<Rightarrow> string \<Rightarrow> error + dataarray" where
  "getattr dc name =
     (case data_vars dc name of None \<Rightarrow> Inl (AttributeError name) | Some v \<Rightarrow> Inr v)"

text \<open>\<open>dc[name] = v\<close>: stores the variable, replacing one of the same name.\<close>

definition setitem :: "dataset \<Rightarrow> string \<Rightarrow> dataarray \<Rightarrow> dataset" where
  "setitem dc name v = dc\<lparr>data_vars := (data_vars dc)(name \<mapsto> v)\<rparr>"

text \<open>An exception raised while an expression is evaluated ends the evaluation.\<close>

definition and_then :: "error + 'a \<Rightarrow> ('a \<Rightarrow> error + 'b) \<Rightarrow> error + 'b" where
  "and_then r k = (case r of Inl e \<Rightarrow> Inl e | Inr x \<Rightarrow> k x)"

text \<open>
  A statement runs on the caller's Dataset and leaves it changed in place. Its outcome is
  the exception that left it, if any, together with the Dataset as it then is: what an
  earlier statement stored stays stored when a later one raises.
\<close>

type_synonym stmt = "dataset \<Rightarrow> error option \<times> dataset"

definition assign :: "string \<Rightarrow> (dataset \<Rightarrow> error + dataarray) \<Rightarrow> stmt" where
  "assign name rhs dc =
     (case rhs dc of Inl e \<Rightarrow> (Some e, dc) | Inr v \<Rightarrow> (None, setitem dc name v))"

definition seq :: "stmt \<Rightarrow> stmt \<Rightarrow> stmt" where
  "seq s1 s2 dc = (case s1 dc of (Some e, dc') \<Rightarrow> (Some e, dc') | (None, dc') \<Rightarrow> s2 dc')"

subsection \<open>calculate\_band\_indices\<close>

text \<open>The three right-hand sides, operands read left to right as Python does.\<close>

definition ndvi_rhs :: "dataset \<Rightarrow> error + dataarray" where
  "ndvi_rhs dc =
     and_then (getattr dc ''nir'') (\<lambda>a.
     and_then (getattr dc ''red'') (\<lambda>b.
     and_then (getattr dc ''nir'') (\<lambda>c.
     and_then (getattr dc ''red'') (\<lambda>d.
       Inr (da_truediv (da_sub a b) (da_add c d))))))"

definition ndwi_rhs :: "dataset \<Rightarrow> error + dataarray" where
  "ndwi_rhs dc =
     and_then (getattr dc ''green'') (\<lambda>a.
     and_then (getattr dc ''nir'') (\<lambda>b.
     and_then (getattr dc ''green'') (\<lambda>c.
     and_then (getattr dc ''nir'') (\<lambda>d.
       Inr (da_truediv (da_sub a b) (da_add c d))))))"

definition mndwi_rhs :: "dataset \<Rightarrow> error + dataarray" where
  "mndwi_rhs dc =
     and_then (getattr dc ''green'') (\<lambda>a.
     and_then (getattr dc ''swir1'') (\<lambda>b.
     and_then (getattr dc ''nir'') (\<lambda>c.
     and_then (getattr dc ''swir1'') (\<lambda>d.
       Inr (da_truediv (da_sub a b) (da_add c d))))))"

text \<open>
  The function: three assignments in a row. On a normal return the Dataset of the outcome
  is the value returned, which is the caller's own object.
\<close>

definition calculate_band_indices :: "dataset \<Rightarrow> error option \<times> dataset" where
  "calculate_band_indices =
     seq (assign ''ndvi'' ndvi_rhs)
    (seq (assign ''ndwi'' ndwi_rhs)
         (assign ''mndwi'' mndwi_rhs))"

subsection \<open>Reading a sample\<close>

text \<open>A value of the nominal range of an index, and a value that is no number of
  the range at all: an infinity or not-a-number.\<close>

definition in_unit_range :: "sample \<Rightarrow> bool" where
  "in_unit_range s = (case s of Fin q \<Rightarrow> - 1 \<le> q \<and> q \<le> 1 | _ \<Rightarrow> False)"

definition non_finite :: "sample \<Rightarrow> bool" where
  "non_finite s = (case s of Fin q \<Rightarrow> False | _ \<Rightarrow> True)"

subsection \<open>Example stacks\<close>

text \<open>
  \<open>grid ds x\<close> holds \<open>x\<close> at every position of the dimensions \<open>ds\<close>; over
  \<open>y\<close> and \<open>x\<close> of length one it is the grid \<open>[[x]]\<close>. \<open>row2 a b\<close> is the grid
  \<open>[[a, b]]\<close>. \<open>stack_of\<close> builds a Dataset from the lengths of its dimensions and
  its bands.
\<close>

definition grid :: "string list \<Rightarrow> real \<Rightarrow> dataarray" where
  "grid ds x = \<lparr>dims = ds, data = (\<lambda>idx. Fin x)\<rparr>"

definition row2 :: "real \<Rightarrow> real \<Rightarrow> dataarray" where
  "row2 a b = \<lparr>dims = [''y'', ''x''], data = (\<lambda>idx. if idx ''x'' = 0 then Fin a else Fin b)\<rparr>"

definition stack_of :: "(string \<times> nat) list \<Rightarrow> (string \<times> dataarray) list \<Rightarrow> dataset" where
  "stack_of lens bands =
     \<lparr>sizes = (\<lambda>d. case map_of lens d of None \<Rightarrow> 0 | Some k \<Rightarrow> k),
      data_vars = map_of bands\<rparr>"

definition yx :: "string list" where
  "yx = [''y'', ''x'']"

definition tyx :: "string list" where
  "tyx = [''time'', ''y'', ''x'']"

definition one_by_one :: "(string \<times> nat) list" where
  "one_by_one = [(''y'', 1), (''x'', 1)]"

definition stack_nir_only :: dataset where
  "stack_nir_only = stack_of one_by_one [(''nir'', grid yx (1/2))]"

definition stack_nir_red :: dataset where
  "stack_nir_red = stack_of one_by_one [(''nir'', grid yx (5/10)), (''red'', grid yx (1/10))]"

definition stack_no_swir1 :: dataset where
  "stack_no_swir1 = stack_of one_by_one
     [(''nir'', grid yx (1/2)), (''red'', grid yx (1/4)), (''green'', grid yx (1/4))]"

definition stack_green_nir :: dataset where
  "stack_green_nir = stack_of one_by_one [(''green'', grid yx (2/10)), (''nir'', grid yx (2/10))]"

definition stack_water :: dataset where
  "stack_water = stack_of one_by_one
     [(''green'', grid yx (2/10)), (''nir'', grid yx (2/10)), (''red'', grid yx (1/10))]"

definition stack_ndwi :: dataset where
  "stack_ndwi = stack_of one_by_one
     [(''green'', grid yx (3/10)), (''nir'', grid yx (1/10)), (''red'', grid yx (1/10))]"

definition stack_mndwi :: dataset where
  "stack_mndwi = stack_of one_by_one
     [(''nir'', grid yx (1/2)), (''red'', grid yx (1/10)), (''swir1'', grid yx (1/10)),
      (''green'', grid yx (2/5))]"

definition stack_no_red :: dataset where
  "stack_no_red = stack_of one_by_one
     [(''green'', grid yx (1/5)), (''nir'', grid yx (3/10)), (''swir1'', grid yx (1/10))]"

definition stack_full :: dataset where
  "stack_full = stack_of one_by_one
     [(''nir'', grid yx (3/10)), (''red'', grid yx (1/10)), (''swir1'', grid yx (1/10)),
      (''green'', grid yx (1/5)), (''blue'', grid yx (1/20))]"

definition stack_full_other :: dataset where
  "stack_full_other = stack_of one_by_one
     [(''ndvi'', grid yx 7), (''nir'', grid yx (3/10)), (''red'', grid yx (1/10)),
      (''swir1'', grid yx (1/10)), (''green'', grid yx (1/5)), (''blue'', grid yx (9/10))]"

definition stack_mixed_dims :: dataset where
  "stack_mixed_dims = stack_of [(''time'', 2), (''y'', 1), (''x'', 1)]
     [(''nir'', grid tyx (1/2)), (''red'', grid yx (1/4)),
      (''green'', grid tyx (1/4)), (''swir1'', grid tyx (1/4))]"

definition stack_negative_red :: dataset where
  "stack_negative_red = stack_of one_by_one [(''nir'', grid yx 1), (''red'', grid yx (- 1/2))]"

definition stack_zero_sums :: dataset where
  "stack_zero_sums = stack_of [(''y'', 1), (''x'', 2)]
     [(''nir'', row2 (1/2) (3/10)), (''red'', row2 (- 1/2) (1/10)),
      (''green'', row2 (- 1/2) (1/5)), (''swir1'', row2 (- 1/2) (1/10))]"

section \<open>The run of the three statements\<close>

lemma ndvi_rhs_eq:
  "ndvi_rhs dc =
     (case data_vars dc ''nir'' of None \<Rightarrow> Inl (AttributeError ''nir'')
      | Some n \<Rightarrow> (case data_vars dc ''red'' of None \<Rightarrow> Inl (AttributeError ''red'')
         | Some r \<Rightarrow> Inr (da_truediv (da_sub n r) (da_add n r))))"
  by (simp add: ndvi_rhs_def getattr_def and_then_def split: option.splits)

lemma ndwi_rhs_eq:
  "ndwi_rhs dc =
     (case data_vars dc ''green'' of None \<Rightarrow> Inl (AttributeError ''green'')
      | Some g \<Rightarrow> (case data_vars dc ''nir'' of None \<Rightarrow> Inl (AttributeError ''nir'')
         | Some n \<Rightarrow> Inr (da_truediv (da_sub g n) (da_add g n))))"
  by (simp add: ndwi_rhs_def getattr_def and_then_def split: option.splits)

lemma mndwi_rhs_eq:
  "mndwi_rhs dc =
     (case data_vars dc ''green'' of None \<Rightarrow> Inl (AttributeError ''green'')
      | Some g \<Rightarrow> (case data_vars dc ''swir1'' of None \<Rightarrow> Inl (AttributeError ''swir1'')
         | Some s \<Rightarrow> (case data_vars dc ''nir'' of None \<Rightarrow> Inl (AttributeError ''nir'')
           | Some n \<Rightarrow> Inr (da_truediv (da_sub g s) (da_add n s)))))"
  by (simp add: mndwi_rhs_def getattr_def and_then_def split: option.splits)

lemma data_vars_setitem: "data_vars (setitem dc name v) = (data_vars dc)(name \<mapsto> v)"
  by (simp add: setitem_def)

lemma sizes_setitem: "sizes (setitem dc name v) = sizes dc"
  by (simp add: setitem_def)

lemma setitem_again: "setitem (setitem dc name v) name w = setitem dc name w"
  by (simp add: setitem_def)

text \<open>The five ways the call can go, by the first band that is absent.\<close>

lemma calc_no_nir:
  "data_vars dc ''nir'' = None \<Longrightarrow>
   calculate_band_indices dc = (Some (AttributeError ''nir''), dc)"
  by (simp add: calculate_band_indices_def seq_def assign_def ndvi_rhs_eq)

lemma calc_no_red:
  "data_vars dc ''nir'' = Some n \<Longrightarrow> data_vars dc ''red'' = None \<Longrightarrow>
   calculate_band_indices dc = (Some (AttributeError ''red''), dc)"
  by (simp add: calculate_band_indices_def seq_def assign_def ndvi_rhs_eq)

lemma calc_no_green:
  "data_vars dc ''nir'' = Some n \<Longrightarrow> data_vars dc ''red'' = Some r \<Longrightarrow>
   data_vars dc ''green'' = None \<Longrightarrow>
   calculate_band_indices dc =
     (Some (AttributeError ''green''),
      setitem dc ''ndvi'' (da_truediv (da_sub n r) (da_add n r)))"
  by (simp add: calculate_band_indices_def seq_def assign_def ndvi_rhs_eq ndwi_rhs_eq
      data_vars_setitem)

lemma calc_no_swir1:
  "data_vars dc ''nir'' = Some n \<Longrightarrow> data_vars dc ''red'' = Some r \<Longrightarrow>
   data_vars dc ''green'' = Some g \<Longrightarrow> data_vars dc ''swir1'' = None \<Longrightarrow>
   calculate_band_indices dc =
     (Some (AttributeError ''swir1''),
      setitem (setitem dc ''ndvi'' (da_truediv (da_sub n r) (da_add n r)))
        ''ndwi'' (da_truediv (da_sub g n) (da_add g n)))"
  by (simp add: calculate_band_indices_def seq_def assign_def ndvi_rhs_eq ndwi_rhs_eq
      mndwi_rhs_eq data_vars_setitem)

lemma calc_all:
  "data_vars dc ''nir'' = Some n \<Longrightarrow> data_vars dc ''red'' = Some r \<Longrightarrow>
   data_vars dc ''green'' = Some g \<Longrightarrow> data_vars dc ''swir1'' = Some s \<Longrightarrow>
   calculate_band_indices dc =
     (None,
      setitem (setitem (setitem dc ''ndvi'' (da_truediv (da_sub n r) (da_add n r)))
        ''ndwi'' (da_truediv (da_sub g n) (da_add g n)))
        ''mndwi'' (da_truediv (da_sub g s) (da_add n s)))"
  by (simp add: calculate_band_indices_def seq_def assign_def ndvi_rhs_eq ndwi_rhs_eq
      mndwi_rhs_eq data_vars_setitem)

lemma calc_cases:
  "calculate_band_indices dc =
    (case data_vars dc ''nir'' of None \<Rightarrow> (Some (AttributeError ''nir''), dc)
     | Some n \<Rightarrow>
    (case data_vars dc ''red'' of None \<Rightarrow> (Some (AttributeError ''red''), dc)
     | Some r \<Rightarrow>
    (case data_vars dc ''green'' of None \<Rightarrow>
        (Some (AttributeError ''green''),
         setitem dc ''ndvi'' (da_truediv (da_sub n r) (da_add n r)))
     | Some g \<Rightarrow>
    (case data_vars dc ''swir1'' of None \<Rightarrow>
        (Some (AttributeError ''swir1''),
         setitem (setitem dc ''ndvi'' (da_truediv (da_sub n r) (da_add n r)))
           ''ndwi'' (da_truediv (da_sub g n) (da_add g n)))
     | Some s \<Rightarrow>
        (None,
         setitem (setitem (setitem dc ''ndvi'' (da_truediv (da_sub n r) (da_add n r)))
           ''ndwi'' (da_truediv (da_sub g n) (da_add g n)))
           ''mndwi'' (da_truediv (da_sub g s) (da_add n s)))))))"
  by (simp add: calc_no_nir calc_no_red calc_no_green calc_no_swir1 calc_all
      split: option.splits)

text \<open>Which layer the call leaves under \<open>ndvi\<close> and \<open>ndwi\<close>, once their statements ran.\<close>

lemma ndvi_attached:
  assumes "data_vars dc ''nir'' = Some n" and "data_vars dc ''red'' = Some r"
  shows "data_vars (snd (calculate_band_indices dc)) ''ndvi'' =
           Some (da_truediv (da_sub n r) (da_add n r))"
  using assms by (simp add: calc_cases data_vars_setitem split: option.splits)

lemma ndwi_attached:
  assumes "data_vars dc ''nir'' = Some n" and "data_vars dc ''red'' = Some r"
    and "data_vars dc ''green'' = Some g"
  shows "data_vars (snd (calculate_band_indices dc)) ''ndwi'' =
           Some (da_truediv (da_sub g n) (da_add g n))"
  using assms by (simp add: calc_cases data_vars_setitem split: option.splits)

text \<open>One sample of a quotient of a difference and a sum, and its dimensions.\<close>

lemma data_index:
  "data (da_truediv (da_sub a b) (da_add c d)) idx =
     fdiv (fsub (data a idx) (data b idx)) (fadd (data c idx) (data d idx))"
  by (simp add: da_truediv_def da_sub_def da_add_def binary_op_def)

lemma dims_index:
  "dims a = ds \<Longrightarrow> dims b = ds \<Longrightarrow> dims c = ds \<Longrightarrow> dims d = ds \<Longrightarrow>
   dims (da_truediv (da_sub a b) (da_add c d)) = ds"
  by (simp add: da_truediv_def da_sub_def da_add_def binary_op_def)

lemma data_vars_stack_of: "data_vars (stack_of lens bands) = map_of bands"
  by (simp add: stack_of_def)

lemma sizes_stack_of:
  "sizes (stack_of lens bands) d = (case map_of lens d of None \<Rightarrow> 0 | Some k \<Rightarrow> k)"
  by (simp add: stack_of_def)

lemma dims_grid: "dims (grid ds x) = ds"
  by (simp add: grid_def)

lemma data_grid: "data (grid ds x) idx = Fin x"
  by (simp add: grid_def)

section \<open>Missing bands\<close>

text \<open>
  Claim C1 says that a call on a stack lacking a required band fails before any layer is
  attached. It does not on a stack that has \<open>nir\<close>, \<open>red\<close> and \<open>green\<close> but no
  \<open>swir1\<close>: the stack had neither \<open>ndvi\<close> nor \<open>ndwi\<close>, the call raises
  AttributeError for \<open>swir1\<close>, and both layers are attached when it does.
\<close>

theorem no_swir1_partial_attachment:
  "data_vars stack_no_swir1 ''swir1'' = None \<and>
   data_vars stack_no_swir1 ''ndvi'' = None \<and>
   data_vars stack_no_swir1 ''ndwi'' = None \<and>
   fst (calculate_band_indices stack_no_swir1) = Some (AttributeError ''swir1'') \<and>
   data_vars (snd (calculate_band_indices stack_no_swir1)) ''ndvi'' \<noteq> None \<and>
   data_vars (snd (calculate_band_indices stack_no_swir1)) ''ndwi'' \<noteq> None"
proof -
  have "calculate_band_indices stack_no_swir1 =
     (Some (AttributeError ''swir1''),
      setitem (setitem stack_no_swir1 ''ndvi''
        (da_truediv (da_sub (grid yx (1/2)) (grid yx (1/4)))
           (da_add (grid yx (1/2)) (grid yx (1/4)))))
        ''ndwi'' (da_truediv (da_sub (grid yx (1/4)) (grid yx (1/2)))
           (da_add (grid yx (1/4)) (grid yx (1/2)))))"
    by (rule calc_no_swir1) (simp_all add: stack_no_swir1_def data_vars_stack_of)
  then show ?thesis
    by (simp add: data_vars_setitem) (simp add: stack_no_swir1_def data_vars_stack_of)
qed

text \<open>
  Claim C1, amended. A call on a stack lacking a required band raises AttributeError in
  the first statement that reads an absent band, and what the earlier statements stored
  stays. When \<open>nir\<close> or \<open>red\<close> is absent, the error names an absent band and the stack
  is as it was. When \<open>green\<close> is the first absent band, the stack is as it was but for
  \<open>ndvi\<close>. When only \<open>swir1\<close> is absent, the stack is as it was but for \<open>ndvi\<close> and
  \<open>ndwi\<close>.
\<close>

theorem missing_band_attachments:
  "(data_vars dc ''nir'' = None \<or> data_vars dc ''red'' = None \<longrightarrow>
      (\<exists>b. fst (calculate_band_indices dc) = Some (AttributeError b) \<and>
           data_vars dc b = None) \<and>
      snd (calculate_band_indices dc) = dc) \<and>
   (data_vars dc ''nir'' = Some n \<and> data_vars dc ''red'' = Some r \<and>
    data_vars dc ''green'' = None \<longrightarrow>
      calculate_band_indices dc =
        (Some (AttributeError ''green''),
         setitem dc ''ndvi'' (da_truediv (da_sub n r) (da_add n r)))) \<and>
   (data_vars dc ''nir'' = Some n \<and> data_vars dc ''red'' = Some r \<and>
    data_vars dc ''green'' = Some g \<and> data_vars dc ''swir1'' = None \<longrightarrow>
      calculate_band_indices dc =
        (Some (AttributeError ''swir1''),
         setitem (setitem dc ''ndvi'' (da_truediv (da_sub n r) (da_add n r)))
           ''ndwi'' (da_truediv (da_sub g n) (da_add g n))))"
proof (intro conjI impI)
  assume a: "data_vars dc ''nir'' = None \<or> data_vars dc ''red'' = None"
  show "\<exists>b. fst (calculate_band_indices dc) = Some (AttributeError b) \<and>
           data_vars dc b = None"
  proof (cases "data_vars dc ''nir''")
    case None
    then show ?thesis using calc_no_nir [of dc] by auto
  next
    case (Some n)
    with a have "data_vars dc ''red'' = None" by simp
    with Some show ?thesis using calc_no_red [of dc n] by auto
  qed
  show "snd (calculate_band_indices dc) = dc"
  proof (cases "data_vars dc ''nir''")
    case None
    then show ?thesis by (simp add: calc_no_nir)
  next
    case (Some n)
    with a have "data_vars dc ''red'' = None" by simp
    with Some show ?thesis by (simp add: calc_no_red)
  qed
qed (simp_all add: calc_no_green calc_no_swir1)

text \<open>The three cases of the amended C1 on stacks that lack \<open>red\<close>, \<open>green\<close> and
  \<open>swir1\<close>.\<close>

theorem missing_band_attachments_witness:
  "data_vars stack_nir_only ''red'' = None \<and>
   (\<exists>b. fst (calculate_band_indices stack_nir_only) = Some (AttributeError b) \<and>
        data_vars stack_nir_only b = None) \<and>
   snd (calculate_band_indices stack_nir_only) = stack_nir_only \<and>
   data_vars stack_nir_red ''green'' = None \<and>
   calculate_band_indices stack_nir_red =
     (Some (AttributeError ''green''),
      setitem stack_nir_red ''ndvi''
        (da_truediv (da_sub (grid yx (5/10)) (grid yx (1/10)))
           (da_add (grid yx (5/10)) (grid yx (1/10))))) \<and>
   data_vars stack_no_swir1 ''swir1'' = None \<and>
   calculate_band_indices stack_no_swir1 =
     (Some (AttributeError ''swir1''),
      setitem (setitem stack_no_swir1 ''ndvi''
        (da_truediv (da_sub (grid yx (1/2)) (grid yx (1/4)))
           (da_add (grid yx (1/2)) (grid yx (1/4)))))
        ''ndwi'' (da_truediv (da_sub (grid yx (1/4)) (grid yx (1/2)))
           (da_add (grid yx (1/4)) (grid yx (1/2)))))"
proof -
  have a: "data_vars stack_nir_only ''red'' = None"
    by (simp add: stack_nir_only_def data_vars_stack_of)
  have b: "data_vars stack_nir_red ''nir'' = Some (grid yx (5/10)) \<and>
      data_vars stack_nir_red ''red'' = Some (grid yx (1/10)) \<and>
      data_vars stack_nir_red ''green'' = None"
    by (simp add: stack_nir_red_def data_vars_stack_of)
  have c: "data_vars stack_no_swir1 ''nir'' = Some (grid yx (1/2)) \<and>
      data_vars stack_no_swir1 ''red'' = Some (grid yx (1/4)) \<and>
      data_vars stack_no_swir1 ''green'' = Some (grid yx (1/4)) \<and>
      data_vars stack_no_swir1 ''swir1'' = None"
    by (simp add: stack_no_swir1_def data_vars_stack_of)
  show ?thesis
    using a b c
      missing_band_attachments [of stack_nir_only]
      missing_band_attachments [of stack_nir_red "grid yx (5/10)" "grid yx (1/10)"]
      missing_band_attachments [of stack_no_swir1 "grid yx (1/2)" "grid yx (1/4)" "grid yx (1/4)"]
    by simp
qed

section \<open>The three formulas\<close>

text \<open>
  Claim C2. On every stack that has \<open>nir\<close> and \<open>red\<close> over the same dimensions, the
  call leaves under \<open>ndvi\<close> a layer over those dimensions whose sample at every position
  (of every time slice: time is one of the named dimensions) is
  \<open>(nir - red) / (nir + red)\<close> of the samples at that position. Where \<open>nir\<close> is 0.5
  and \<open>red\<close> is 0.1 the sample is finite and within 0.0001 of 0.6667. The layer is
  there whether or not the later statements raise.
\<close>

theorem ndvi_formula:
  assumes "data_vars dc ''nir'' = Some n" and "data_vars dc ''red'' = Some r"
    and "dims n = dims r"
  shows "\<exists>v. data_vars (snd (calculate_band_indices dc)) ''ndvi'' = Some v \<and>
           dims v = dims n \<and>
           (\<forall>idx. data v idx =
              fdiv (fsub (data n idx) (data r idx)) (fadd (data n idx) (data r idx))) \<and>
           (\<forall>idx. data n idx = Fin (5/10) \<and> data r idx = Fin (1/10) \<longrightarrow>
              (\<exists>q. data v idx = Fin q \<and> \<bar>q - 6667/10000\<bar> \<le> 1/10000))"
proof -
  let ?v = "da_truediv (da_sub n r) (da_add n r)"
  have att: "data_vars (snd (calculate_band_indices dc)) ''ndvi'' = Some ?v"
    using assms(1,2) by (rule ndvi_attached)
  have d: "dims ?v = dims n"
    using assms(3) by (simp add: dims_index)
  have f: "\<forall>idx. data ?v idx =
      fdiv (fsub (data n idx) (data r idx)) (fadd (data n idx) (data r idx))"
    by (simp add: data_index)
  have c: "\<forall>idx. data n idx = Fin (5/10) \<and> data r idx = Fin (1/10) \<longrightarrow>
      (\<exists>q. data ?v idx = Fin q \<and> \<bar>q - 6667/10000\<bar> \<le> 1/10000)"
  proof (intro allI impI)
    fix idx
    assume "data n idx = Fin (5/10) \<and> data r idx = Fin (1/10)"
    then have "data ?v idx = Fin (2/3)"
      by (simp add: data_index fsub_def)
    then show "\<exists>q. data ?v idx = Fin q \<and> \<bar>q - 6667/10000\<bar> \<le> 1/10000"
      by (intro exI [of _ "2/3"]) simp
  qed
  from att d f c show ?thesis by blast
qed

text \<open>C2 on the stack with \<open>nir = [[0.5]]\<close> and \<open>red = [[0.1]]\<close>.\<close>

theorem ndvi_formula_witness:
  "data_vars stack_nir_red ''nir'' = Some (grid yx (5/10)) \<and>
   data_vars stack_nir_red ''red'' = Some (grid yx (1/10)) \<and>
   dims (grid yx (5/10)) = dims (grid yx (1/10)) \<and>
   (\<exists>v. data_vars (snd (calculate_band_indices stack_nir_red)) ''ndvi'' = Some v \<and>
      dims v = yx \<and>
      (\<forall>idx. \<exists>q. data v idx = Fin q \<and> \<bar>q - 6667/10000\<bar> \<le> 1/10000))"
proof -
  have h1: "data_vars stack_nir_red ''nir'' = Some (grid yx (5/10))"
    by (simp add: stack_nir_red_def data_vars_stack_of)
  have h2: "data_vars stack_nir_red ''red'' = Some (grid yx (1/10))"
    by (simp add: stack_nir_red_def data_vars_stack_of)
  have h3: "dims (grid yx (5/10)) = dims (grid yx (1/10))"
    by (simp add: dims_grid)
  from ndvi_formula [OF h1 h2 h3] obtain v where
    v: "data_vars (snd (calculate_band_indices stack_nir_red)) ''ndvi'' = Some v"
    and d: "dims v = dims (grid yx (5/10))"
    and c: "\<forall>idx. data (grid yx (5/10)) idx = Fin (5/10) \<and>
              data (grid yx (1/10)) idx = Fin (1/10) \<longrightarrow>
              (\<exists>q. data v idx = Fin q \<and> \<bar>q - 6667/10000\<bar> \<le> 1/10000)"
    by blast
  from c have "\<forall>idx. \<exists>q. data v idx = Fin q \<and> \<bar>q - 6667/10000\<bar> \<le> 1/10000"
    by (simp add: data_grid)
  with v d h1 h2 h3 show ?thesis
    by (simp add: dims_grid)
qed

text \<open>
  Claim C3 says that every stack with \<open>green\<close> and \<open>nir\<close> of one shape gets the
  \<open>ndwi\<close> layer of the formula. A stack with \<open>green = [[0.2]]\<close> and
  \<open>nir = [[0.2]]\<close> alone does not: the \<open>ndvi\<close> statement comes first and reads
  \<open>red\<close>, so the call raises AttributeError for \<open>red\<close> and the stack has no
  \<open>ndwi\<close> afterwards.
\<close>

theorem ndwi_needs_red:
  "data_vars stack_green_nir ''green'' = Some (grid yx (2/10)) \<and>
   data_vars stack_green_nir ''nir'' = Some (grid yx (2/10)) \<and>
   dims (grid yx (2/10)) = dims (grid yx (2/10)) \<and>
   fst (calculate_band_indices stack_green_nir) = Some (AttributeError ''red'') \<and>
   data_vars (snd (calculate_band_indices stack_green_nir)) ''ndwi'' = None"
proof -
  have b: "data_vars stack_green_nir ''green'' = Some (grid yx (2/10))"
    "data_vars stack_green_nir ''nir'' = Some (grid yx (2/10))"
    "data_vars stack_green_nir ''red'' = None"
    "data_vars stack_green_nir ''ndwi'' = None"
    by (simp_all add: stack_green_nir_def data_vars_stack_of)
  from b(2,3) have "calculate_band_indices stack_green_nir =
      (Some (AttributeError ''red''), stack_green_nir)"
    by (rule calc_no_red)
  with b show ?thesis by simp
qed

text \<open>
  Claim C3, amended. On every stack that has \<open>red\<close>, and \<open>green\<close> and \<open>nir\<close> over
  the same dimensions, the call leaves under \<open>ndwi\<close> a layer over those dimensions whose
  sample at every position is \<open>(green - nir) / (green + nir)\<close> of the samples there:
  as the operators compute it for any samples, and so the real quotient wherever both
  are finite and their sum is not zero. Where \<open>green\<close> and \<open>nir\<close> are the same finite
  value and their sum is not zero, it is exactly 0.
\<close>

theorem ndwi_formula:
  assumes "data_vars dc ''green'' = Some g" and "data_vars dc ''nir'' = Some n"
    and "data_vars dc ''red'' = Some r" and "dims g = dims n"
  shows "\<exists>v. data_vars (snd (calculate_band_indices dc)) ''ndwi'' = Some v \<and>
           dims v = dims g \<and>
           (\<forall>idx. data v idx =
              fdiv (fsub (data g idx) (data n idx)) (fadd (data g idx) (data n idx))) \<and>
           (\<forall>idx a b. data g idx = Fin a \<and> data n idx = Fin b \<and> a + b \<noteq> 0 \<longrightarrow>
              data v idx = Fin ((a - b) / (a + b))) \<and>
           (\<forall>idx x. data g idx = Fin x \<and> data n idx = Fin x \<and> x + x \<noteq> 0 \<longrightarrow>
              data v idx = Fin 0)"
proof -
  let ?v = "da_truediv (da_sub g n) (da_add g n)"
  have att: "data_vars (snd (calculate_band_indices dc)) ''ndwi'' = Some ?v"
    using assms(2,3,1) by (rule ndwi_attached)
  have d: "dims ?v = dims g"
    using assms(4) by (simp add: dims_index)
  have f: "\<forall>idx. data ?v idx =
      fdiv (fsub (data g idx) (data n idx)) (fadd (data g idx) (data n idx))"
    by (simp add: data_index)
  have q: "\<forall>idx a b. data g idx = Fin a \<and> data n idx = Fin b \<and> a + b \<noteq> 0 \<longrightarrow>
      data ?v idx = Fin ((a - b) / (a + b))"
    by (simp add: data_index fsub_def)
  have z: "\<forall>idx x. data g idx = Fin x \<and> data n idx = Fin x \<and> x + x \<noteq> 0 \<longrightarrow>
      data ?v idx = Fin 0"
    by (simp add: data_index fsub_def)
  from att d f q z show ?thesis by blast
qed

text \<open>The amended C3 on a stack with \<open>green = [[0.3]]\<close>, \<open>nir = [[0.1]]\<close> and a
  \<open>red\<close> band, where the index is \<open>0.2 / 0.4\<close>, and on one with
  \<open>green = [[0.2]]\<close>, \<open>nir = [[0.2]]\<close> and a \<open>red\<close> band, where it is 0.\<close>

theorem ndwi_formula_witness:
  "data_vars stack_ndwi ''green'' = Some (grid yx (3/10)) \<and>
   data_vars stack_ndwi ''nir'' = Some (grid yx (1/10)) \<and>
   data_vars stack_ndwi ''red'' = Some (grid yx (1/10)) \<and>
   (\<exists>v. data_vars (snd (calculate_band_indices stack_ndwi)) ''ndwi'' = Some v \<and>
      dims v = yx \<and> (\<forall>idx. data v idx = Fin (1/2))) \<and>
   data_vars stack_water ''green'' = Some (grid yx (2/10)) \<and>
   data_vars stack_water ''nir'' = Some (grid yx (2/10)) \<and>
   data_vars stack_water ''red'' = Some (grid yx (1/10)) \<and>
   (\<exists>v. data_vars (snd (calculate_band_indices stack_water)) ''ndwi'' = Some v \<and>
      dims v = yx \<and> (\<forall>idx. data v idx = Fin 0))"
proof -
  have h1: "data_vars stack_ndwi ''green'' = Some (grid yx (3/10))"
    by (simp add: stack_ndwi_def data_vars_stack_of)
  have h2: "data_vars stack_ndwi ''nir'' = Some (grid yx (1/10))"
    by (simp add: stack_ndwi_def data_vars_stack_of)
  have h3: "data_vars stack_ndwi ''red'' = Some (grid yx (1/10))"
    by (simp add: stack_ndwi_def data_vars_stack_of)
  have h4: "dims (grid yx (3/10)) = dims (grid yx (1/10))"
    by (simp add: dims_grid)
  from ndwi_formula [OF h1 h2 h3 h4] obtain v where
    v: "data_vars (snd (calculate_band_indices stack_ndwi)) ''ndwi'' = Some v"
    and d: "dims v = dims (grid yx (3/10))"
    and q: "\<forall>idx a b. data (grid yx (3/10)) idx = Fin a \<and>
              data (grid yx (1/10)) idx = Fin b \<and> a + b \<noteq> 0 \<longrightarrow>
              data v idx = Fin ((a - b) / (a + b))"
    by blast
  have "\<forall>idx. data v idx = Fin (1/2)"
  proof
    fix idx
    from q have "data (grid yx (3/10)) idx = Fin (3/10) \<and>
        data (grid yx (1/10)) idx = Fin (1/10) \<and> (3/10::real) + 1/10 \<noteq> 0 \<longrightarrow>
        data v idx = Fin ((3/10 - 1/10) / (3/10 + 1/10))"
      by blast
    then show "data v idx = Fin (1/2)"
      by (simp add: data_grid)
  qed
  with v d have w1: "\<exists>v. data_vars (snd (calculate_band_indices stack_ndwi)) ''ndwi'' = Some v \<and>
      dims v = yx \<and> (\<forall>idx. data v idx = Fin (1/2))"
    by (simp add: dims_grid)
  have k1: "data_vars stack_water ''green'' = Some (grid yx (2/10))"
    by (simp add: stack_water_def data_vars_stack_of)
  have k2: "data_vars stack_water ''nir'' = Some (grid yx (2/10))"
    by (simp add: stack_water_def data_vars_stack_of)
  have k3: "data_vars stack_water ''red'' = Some (grid yx (1/10))"
    by (simp add: stack_water_def data_vars_stack_of)
  have k4: "dims (grid yx (2/10)) = dims (grid yx (2/10))"
    by simp
  from ndwi_formula [OF k1 k2 k3 k4] obtain u where
    u: "data_vars (snd (calculate_band_indices stack_water)) ''ndwi'' = Some u"
    and e: "dims u = dims (grid yx (2/10))"
    and z: "\<forall>idx x. data (grid yx (2/10)) idx = Fin x \<and>
              data (grid yx (2/10)) idx = Fin x \<and> x + x \<noteq> 0 \<longrightarrow> data u idx = Fin 0"
    by blast
  have "\<forall>idx. data u idx = Fin 0"
  proof
    fix idx
    from z have "data (grid yx (2/10)) idx = Fin (2/10) \<and>
        data (grid yx (2/10)) idx = Fin (2/10) \<and> (2/10::real) + 2/10 \<noteq> 0 \<longrightarrow>
        data u idx = Fin 0"
      by blast
    then show "data u idx = Fin 0"
      by (simp add: data_grid)
  qed
  with u e have w2: "\<exists>v. data_vars (snd (calculate_band_indices stack_water)) ''ndwi'' = Some v \<and>
      dims v = yx \<and> (\<forall>idx. data v idx = Fin 0)"
    by (simp add: dims_grid)
  from h1 h2 h3 w1 k1 k2 k3 w2 show ?thesis by blast
qed

text \<open>
  Claim C4 says that every stack with \<open>green\<close>, \<open>nir\<close> and \<open>swir1\<close> of one shape
  gets the \<open>mndwi\<close> layer of the formula. A stack with these three bands and no
  \<open>red\<close> does not: the \<open>ndvi\<close> statement comes first and reads \<open>red\<close>, so the
  call raises AttributeError for \<open>red\<close> and the stack has no \<open>mndwi\<close> afterwards.
\<close>

theorem mndwi_needs_red:
  "data_vars stack_no_red ''green'' = Some (grid yx (1/5)) \<and>
   data_vars stack_no_red ''nir'' = Some (grid yx (3/10)) \<and>
   data_vars stack_no_red ''swir1'' = Some (grid yx (1/10)) \<and>
   dims (grid yx (1/5)) = dims (grid yx (3/10)) \<and>
   dims (grid yx (1/10)) = dims (grid yx (3/10)) \<and>
   fst (calculate_band_indices stack_no_red) = Some (AttributeError ''red'') \<and>
   data_vars (snd (calculate_band_indices stack_no_red)) ''mndwi'' = None"
proof -
  have b: "data_vars stack_no_red ''green'' = Some (grid yx (1/5))"
    "data_vars stack_no_red ''nir'' = Some (grid yx (3/10))"
    "data_vars stack_no_red ''swir1'' = Some (grid yx (1/10))"
    "data_vars stack_no_red ''red'' = None"
    "data_vars stack_no_red ''mndwi'' = None"
    by (simp_all add: stack_no_red_def data_vars_stack_of)
  from b(2,4) have "calculate_band_indices stack_no_red =
      (Some (AttributeError ''red''), stack_no_red)"
    by (rule calc_no_red)
  with b show ?thesis by (simp add: dims_grid)
qed

text \<open>
  Claim C4, amended. On every stack that has \<open>red\<close>, and \<open>green\<close>, \<open>nir\<close> and
  \<open>swir1\<close> over the same dimensions, the call returns normally and leaves under
  \<open>mndwi\<close> a layer over those dimensions whose sample at every position is
  \<open>(green - swir1) / (nir + swir1)\<close> of the samples there: as the operators compute it
  for any samples, and so the real quotient wherever the three are finite and the sum of
  \<open>nir\<close> and \<open>swir1\<close> is not zero. The divisor is the sum of \<open>nir\<close> and
  \<open>swir1\<close>, not of \<open>green\<close> and \<open>swir1\<close>.
\<close>

theorem mndwi_formula:
  assumes "data_vars dc ''green'' = Some g" and "data_vars dc ''nir'' = Some n"
    and "data_vars dc ''swir1'' = Some s" and "data_vars dc ''red'' = Some r"
    and "dims g = dims n" and "dims s = dims n"
  shows "fst (calculate_band_indices dc) = None \<and>
         (\<exists>v. data_vars (snd (calculate_band_indices dc)) ''mndwi'' = Some v \<and>
            dims v = dims g \<and>
            (\<forall>idx. data v idx =
               fdiv (fsub (data g idx) (data s idx)) (fadd (data n idx) (data s idx))) \<and>
            (\<forall>idx a b c. data g idx = Fin a \<and> data s idx = Fin b \<and> data n idx = Fin c \<and>
               c + b \<noteq> 0 \<longrightarrow> data v idx = Fin ((a - b) / (c + b))))"
proof -
  let ?v = "da_truediv (da_sub g s) (da_add n s)"
  have ok: "fst (calculate_band_indices dc) = None"
    using assms(1-4) by (simp add: calc_all)
  have att: "data_vars (snd (calculate_band_indices dc)) ''mndwi'' = Some ?v"
    using assms(1-4) by (simp add: calc_all data_vars_setitem)
  have d: "dims ?v = dims g"
    using assms(5,6) by (simp add: dims_index)
  have f: "\<forall>idx. data ?v idx =
      fdiv (fsub (data g idx) (data s idx)) (fadd (data n idx) (data s idx))"
    by (simp add: data_index)
  have q: "\<forall>idx a b c. data g idx = Fin a \<and> data s idx = Fin b \<and> data n idx = Fin c \<and>
      c + b \<noteq> 0 \<longrightarrow> data ?v idx = Fin ((a - b) / (c + b))"
    by (simp add: data_index fsub_def)
  from ok att d f q show ?thesis by blast
qed

text \<open>The amended C4 on a stack with \<open>green = [[0.4]]\<close>, \<open>swir1 = [[0.1]]\<close>,
  \<open>nir = [[0.5]]\<close> and a \<open>red\<close> band: the index is \<open>0.3 / 0.6\<close>, a half, where
  the divisor \<open>green + swir1\<close> would give three fifths.\<close>

theorem mndwi_formula_witness:
  "data_vars stack_mndwi ''green'' = Some (grid yx (2/5)) \<and>
   data_vars stack_mndwi ''nir'' = Some (grid yx (1/2)) \<and>
   data_vars stack_mndwi ''swir1'' = Some (grid yx (1/10)) \<and>
   data_vars stack_mndwi ''red'' = Some (grid yx (1/10)) \<and>
   fst (calculate_band_indices stack_mndwi) = None \<and>
   (\<exists>v. data_vars (snd (calculate_band_indices stack_mndwi)) ''mndwi'' = Some v \<and>
      dims v = yx \<and> (\<forall>idx. data v idx = Fin (1/2)))"
proof -
  have h1: "data_vars stack_mndwi ''green'' = Some (grid yx (2/5))"
    by (simp add: stack_mndwi_def data_vars_stack_of)
  have h2: "data_vars stack_mndwi ''nir'' = Some (grid yx (1/2))"
    by (simp add: stack_mndwi_def data_vars_stack_of)
  have h3: "data_vars stack_mndwi ''swir1'' = Some (grid yx (1/10))"
    by (simp add: stack_mndwi_def data_vars_stack_of)
  have h4: "data_vars stack_mndwi ''red'' = Some (grid yx (1/10))"
    by (simp add: stack_mndwi_def data_vars_stack_of)
  have h5: "dims (grid yx (2/5)) = dims (grid yx (1/2))"
    by (simp add: dims_grid)
  have h6: "dims (grid yx (1/10)) = dims (grid yx (1/2))"
    by (simp add: dims_grid)
  from mndwi_formula [OF h1 h2 h3 h4 h5 h6]
  have ok: "fst (calculate_band_indices stack_mndwi) = None"
    by blast
  from mndwi_formula [OF h1 h2 h3 h4 h5 h6] obtain v where
    v: "data_vars (snd (calculate_band_indices stack_mndwi)) ''mndwi'' = Some v"
    and d: "dims v = dims (grid yx (2/5))"
    and q: "\<forall>idx a b c. data (grid yx (2/5)) idx = Fin a \<and>
        data (grid yx (1/10)) idx = Fin b \<and> data (grid yx (1/2)) idx = Fin c \<and>
        c + b \<noteq> 0 \<longrightarrow> data v idx = Fin ((a - b) / (c + b))"
    by blast
  have "\<forall>idx. data v idx = Fin (1/2)"
  proof
    fix idx
    from q have "data (grid yx (2/5)) idx = Fin (2/5) \<and>
        data (grid yx (1/10)) idx = Fin (1/10) \<and> data (grid yx (1/2)) idx = Fin (1/2) \<and>
        (1/2::real) + 1/10 \<noteq> 0 \<longrightarrow> data v idx = Fin ((2/5 - 1/10) / (1/2 + 1/10))"
      by blast
    then show "data v idx = Fin (1/2)"
      by (simp add: data_grid)
  qed
  with v d have w: "\<exists>v. data_vars (snd (calculate_band_indices stack_mndwi)) ''mndwi'' = Some v \<and>
      dims v = yx \<and> (\<forall>idx. data v idx = Fin (1/2))"
    by (simp add: dims_grid)
  from h1 h2 h3 h4 ok w show ?thesis by blast
qed

section \<open>What makes the call fail\<close>

text \<open>
  Claim C5 says that bands which do not share a shape make the computation fail with a
  shape-mismatch condition. They do not: on a stack whose \<open>nir\<close> has a time axis of
  length two and whose \<open>red\<close> has none, the two shapes differ and the call returns
  normally, with an \<open>ndvi\<close> layer over the dimensions of \<open>nir\<close>.
\<close>

theorem mixed_dims_no_failure:
  "data_vars stack_mixed_dims ''nir'' = Some (grid tyx (1/2)) \<and>
   data_vars stack_mixed_dims ''red'' = Some (grid yx (1/4)) \<and>
   shape stack_mixed_dims (grid tyx (1/2)) = [2, 1, 1] \<and>
   shape stack_mixed_dims (grid yx (1/4)) = [1, 1] \<and>
   shape stack_mixed_dims (grid tyx (1/2)) \<noteq> shape stack_mixed_dims (grid yx (1/4)) \<and>
   fst (calculate_band_indices stack_mixed_dims) = None \<and>
   (\<exists>v. data_vars (snd (calculate_band_indices stack_mixed_dims)) ''ndvi'' = Some v \<and>
      dims v = tyx \<and> (\<forall>idx. data v idx = Fin (1/3)))"
proof -
  have b: "data_vars stack_mixed_dims ''nir'' = Some (grid tyx (1/2))"
    "data_vars stack_mixed_dims ''red'' = Some (grid yx (1/4))"
    "data_vars stack_mixed_dims ''green'' = Some (grid tyx (1/4))"
    "data_vars stack_mixed_dims ''swir1'' = Some (grid tyx (1/4))"
    by (simp_all add: stack_mixed_dims_def data_vars_stack_of)
  have s: "shape stack_mixed_dims (grid tyx (1/2)) = [2, 1, 1]"
    "shape stack_mixed_dims (grid yx (1/4)) = [1, 1]"
    by (simp_all add: shape_def stack_mixed_dims_def sizes_stack_of dims_grid tyx_def yx_def)
  have ok: "fst (calculate_band_indices stack_mixed_dims) = None"
    using b by (simp add: calc_all)
  have v: "data_vars (snd (calculate_band_indices stack_mixed_dims)) ''ndvi'' =
      Some (da_truediv (da_sub (grid tyx (1/2)) (grid yx (1/4)))
        (da_add (grid tyx (1/2)) (grid yx (1/4))))"
    using b(1,2) by (rule ndvi_attached)
  have d: "dims (da_truediv (da_sub (grid tyx (1/2)) (grid yx (1/4)))
        (da_add (grid tyx (1/2)) (grid yx (1/4)))) = tyx"
    by (simp add: da_truediv_def da_sub_def da_add_def binary_op_def dims_grid tyx_def yx_def)
  have f: "\<forall>idx. data (da_truediv (da_sub (grid tyx (1/2)) (grid yx (1/4)))
        (da_add (grid tyx (1/2)) (grid yx (1/4)))) idx = Fin (1/3)"
    by (simp add: data_index data_grid fsub_def)
  from b s ok v d f show ?thesis by simp
qed

text \<open>
  Claim C5, amended. Each of the three statements has one way to fail: AttributeError,
  the missing-band condition, for the first band it reads that the stack lacks; it is
  raised while the operands are read, and a statement that raises has stored nothing.
  The call fails whenever one of \<open>nir\<close>, \<open>red\<close>, \<open>green\<close>, \<open>swir1\<close> is absent,
  with the error for the first absent one in this order, and returns normally whenever
  all four are there, whatever their shapes: no shape check exists.
\<close>

theorem failure_iff_band_absent:
  "fst (calculate_band_indices dc) =
     (if data_vars dc ''nir'' = None then Some (AttributeError ''nir'')
      else if data_vars dc ''red'' = None then Some (AttributeError ''red'')
      else if data_vars dc ''green'' = None then Some (AttributeError ''green'')
      else if data_vars dc ''swir1'' = None then Some (AttributeError ''swir1'')
      else None) \<and>
   fst (assign ''ndvi'' ndvi_rhs dc) =
     (if data_vars dc ''nir'' = None then Some (AttributeError ''nir'')
      else if data_vars dc ''red'' = None then Some (AttributeError ''red'')
      else None) \<and>
   fst (assign ''ndwi'' ndwi_rhs dc) =
     (if data_vars dc ''green'' = None then Some (AttributeError ''green'')
      else if data_vars dc ''nir'' = None then Some (AttributeError ''nir'')
      else None) \<and>
   fst (assign ''mndwi'' mndwi_rhs dc) =
     (if data_vars dc ''green'' = None then Some (AttributeError ''green'')
      else if data_vars dc ''swir1'' = None then Some (AttributeError ''swir1'')
      else if data_vars dc ''nir'' = None then Some (AttributeError ''nir'')
      else None) \<and>
   (\<forall>s \<in> set [assign ''ndvi'' ndvi_rhs, assign ''ndwi'' ndwi_rhs, assign ''mndwi'' mndwi_rhs].
      fst (s dc) \<noteq> None \<longrightarrow> snd (s dc) = dc)"
proof (intro conjI)
  show "fst (calculate_band_indices dc) =
     (if data_vars dc ''nir'' = None then Some (AttributeError ''nir'')
      else if data_vars dc ''red'' = None then Some (AttributeError ''red'')
      else if data_vars dc ''green'' = None then Some (AttributeError ''green'')
      else if data_vars dc ''swir1'' = None then Some (AttributeError ''swir1'')
      else None)"
    by (simp add: calc_cases split: option.splits)
  show "fst (assign ''ndvi'' ndvi_rhs dc) =
     (if data_vars dc ''nir'' = None then Some (AttributeError ''nir'')
      else if data_vars dc ''red'' = None then Some (AttributeError ''red'')
      else None)"
    by (simp add: assign_def ndvi_rhs_eq split: option.splits)
  show "fst (assign ''ndwi'' ndwi_rhs dc) =
     (if data_vars dc ''green'' = None then Some (AttributeError ''green'')
      else if data_vars dc ''nir'' = None then Some (AttributeError ''nir'')
      else None)"
    by (simp add: assign_def ndwi_rhs_eq split: option.splits)
  show "fst (assign ''mndwi'' mndwi_rhs dc) =
     (if data_vars dc ''green'' = None then Some (AttributeError ''green'')
      else if data_vars dc ''swir1'' = None then Some (AttributeError ''swir1'')
      else if data_vars dc ''nir'' = None then Some (AttributeError ''nir'')
      else None)"
    by (simp add: assign_def mndwi_rhs_eq split: option.splits)
  have "fst (assign name rhs dc) \<noteq> None \<longrightarrow> snd (assign name rhs dc) = dc" for name rhs
    by (simp add: assign_def split: sum.splits)
  then show "\<forall>s \<in> set [assign ''ndvi'' ndvi_rhs, assign ''ndwi'' ndwi_rhs,
        assign ''mndwi'' mndwi_rhs].
      fst (s dc) \<noteq> None \<longrightarrow> snd (s dc) = dc"
    by simp
qed

text \<open>The amended C5 on a stack without \<open>swir1\<close>, where the call and the \<open>mndwi\<close>
  statement raise and the other two statements do not, and on a stack with all four
  bands.\<close>

theorem failure_iff_band_absent_witness:
  "fst (calculate_band_indices stack_no_swir1) = Some (AttributeError ''swir1'') \<and>
   fst (assign ''ndvi'' ndvi_rhs stack_no_swir1) = None \<and>
   fst (assign ''ndwi'' ndwi_rhs stack_no_swir1) = None \<and>
   fst (assign ''mndwi'' mndwi_rhs stack_no_swir1) = Some (AttributeError ''swir1'') \<and>
   snd (assign ''mndwi'' mndwi_rhs stack_no_swir1) = stack_no_swir1 \<and>
   fst (calculate_band_indices stack_full) = None"
proof -
  have b: "data_vars stack_no_swir1 ''nir'' \<noteq> None" "data_vars stack_no_swir1 ''red'' \<noteq> None"
    "data_vars stack_no_swir1 ''green'' \<noteq> None" "data_vars stack_no_swir1 ''swir1'' = None"
    by (simp_all add: stack_no_swir1_def data_vars_stack_of)
  have f: "data_vars stack_full ''nir'' \<noteq> None" "data_vars stack_full ''red'' \<noteq> None"
    "data_vars stack_full ''green'' \<noteq> None" "data_vars stack_full ''swir1'' \<noteq> None"
    by (simp_all add: stack_full_def data_vars_stack_of)
  show ?thesis
    using failure_iff_band_absent [of stack_no_swir1] failure_iff_band_absent [of stack_full] b f
    by simp
qed

section \<open>The range of an index\<close>

text \<open>One sample of a normalised difference of two finite, non-negative values whose
  sum is not zero.\<close>

lemma normalised_difference_range:
  fixes a b :: real
  assumes "0 \<le> a" and "0 \<le> b" and "a + b \<noteq> 0"
  shows "in_unit_range (fdiv (fsub (Fin a) (Fin b)) (fadd (Fin a) (Fin b)))"
proof -
  from assms have pos: "0 < a + b" by linarith
  have lo: "- 1 \<le> (a - b) / (a + b)"
    using pos assms(1) by (simp add: pos_le_divide_eq)
  have hi: "(a - b) / (a + b) \<le> 1"
    using pos assms(2) by (simp add: pos_divide_le_eq)
  from lo hi assms(3) show ?thesis
    by (simp add: in_unit_range_def fsub_def)
qed

text \<open>
  Claim C6 says that bands of equal shape whose sum is nowhere zero give an index within
  \<open>[-1, 1]\<close>. They need not: with \<open>nir = [[1.0]]\<close> and \<open>red = [[-0.5]]\<close> the sum is
  0.5 at the one position and \<open>ndvi\<close> there is \<open>1.5 / 0.5 = 3\<close>.
\<close>

theorem negative_red_out_of_range:
  "data_vars stack_negative_red ''nir'' = Some (grid yx 1) \<and>
   data_vars stack_negative_red ''red'' = Some (grid yx (- 1/2)) \<and>
   dims (grid yx 1) = dims (grid yx (- 1/2)) \<and>
   (\<forall>idx. fadd (data (grid yx 1) idx) (data (grid yx (- 1/2)) idx) = Fin (1/2)) \<and>
   (\<exists>v. data_vars (snd (calculate_band_indices stack_negative_red)) ''ndvi'' = Some v \<and>
      (\<forall>idx. data v idx = Fin 3 \<and> \<not> in_unit_range (data v idx)))"
proof -
  have b: "data_vars stack_negative_red ''nir'' = Some (grid yx 1)"
    "data_vars stack_negative_red ''red'' = Some (grid yx (- 1/2))"
    by (simp_all add: stack_negative_red_def data_vars_stack_of)
  have v: "data_vars (snd (calculate_band_indices stack_negative_red)) ''ndvi'' =
      Some (da_truediv (da_sub (grid yx 1) (grid yx (- 1/2)))
        (da_add (grid yx 1) (grid yx (- 1/2))))"
    using b by (rule ndvi_attached)
  have f: "\<forall>idx. data (da_truediv (da_sub (grid yx 1) (grid yx (- 1/2)))
        (da_add (grid yx 1) (grid yx (- 1/2)))) idx = Fin 3"
    by (simp add: data_index data_grid fsub_def)
  have s: "\<forall>idx. fadd (data (grid yx 1) idx) (data (grid yx (- 1/2)) idx) = Fin (1/2)"
    by (simp add: data_grid)
  from b v f s show ?thesis
    by (simp add: dims_grid in_unit_range_def)
qed

text \<open>
  Claim C6, amended. Where both bands of a normalised difference are finite and not
  negative and their sum is not zero, the index is finite and within \<open>[-1, 1]\<close>: so for
  \<open>ndvi\<close> from \<open>nir\<close> and \<open>red\<close>, and for \<open>ndwi\<close> from \<open>green\<close> and \<open>nir\<close>, on
  every stack that has the three bands over the same dimensions.
\<close>

theorem index_range_nonnegative:
  assumes "data_vars dc ''nir'' = Some n" and "data_vars dc ''red'' = Some r"
    and "data_vars dc ''green'' = Some g"
    and "dims r = dims n" and "dims g = dims n"
  shows "\<exists>v w. data_vars (snd (calculate_band_indices dc)) ''ndvi'' = Some v \<and>
           data_vars (snd (calculate_band_indices dc)) ''ndwi'' = Some w \<and>
           (\<forall>idx a b. data n idx = Fin a \<and> data r idx = Fin b \<and>
                0 \<le> a \<and> 0 \<le> b \<and> a + b \<noteq> 0 \<longrightarrow> in_unit_range (data v idx)) \<and>
           (\<forall>idx a b. data g idx = Fin a \<and> data n idx = Fin b \<and>
                0 \<le> a \<and> 0 \<le> b \<and> a + b \<noteq> 0 \<longrightarrow> in_unit_range (data w idx))"
proof -
  let ?v = "da_truediv (da_sub n r) (da_add n r)"
  let ?w = "da_truediv (da_sub g n) (da_add g n)"
  have v: "data_vars (snd (calculate_band_indices dc)) ''ndvi'' = Some ?v"
    using assms(1,2) by (rule ndvi_attached)
  have w: "data_vars (snd (calculate_band_indices dc)) ''ndwi'' = Some ?w"
    using assms(1-3) by (rule ndwi_attached)
  have rv: "\<forall>idx a b. data n idx = Fin a \<and> data r idx = Fin b \<and>
      0 \<le> a \<and> 0 \<le> b \<and> a + b \<noteq> 0 \<longrightarrow> in_unit_range (data ?v idx)"
    using normalised_difference_range by (simp add: data_index)
  have rw: "\<forall>idx a b. data g idx = Fin a \<and> data n idx = Fin b \<and>
      0 \<le> a \<and> 0 \<le> b \<and> a + b \<noteq> 0 \<longrightarrow> in_unit_range (data ?w idx)"
    using normalised_difference_range by (simp add: data_index)
  from v w rv rw show ?thesis by blast
qed

text \<open>The amended C6 on the stack with \<open>nir = [[0.5]]\<close>, \<open>red = [[0.25]]\<close> and
  \<open>green = [[0.25]]\<close>.\<close>

theorem index_range_nonnegative_witness:
  "data_vars stack_no_swir1 ''nir'' = Some (grid yx (1/2)) \<and>
   data_vars stack_no_swir1 ''red'' = Some (grid yx (1/4)) \<and>
   data_vars stack_no_swir1 ''green'' = Some (grid yx (1/4)) \<and>
   (\<exists>v w. data_vars (snd (calculate_band_indices stack_no_swir1)) ''ndvi'' = Some v \<and>
      data_vars (snd (calculate_band_indices stack_no_swir1)) ''ndwi'' = Some w \<and>
      (\<forall>idx. in_unit_range (data v idx)) \<and> (\<forall>idx. in_unit_range (data w idx)))"
proof -
  have h1: "data_vars stack_no_swir1 ''nir'' = Some (grid yx (1/2))"
    by (simp add: stack_no_swir1_def data_vars_stack_of)
  have h2: "data_vars stack_no_swir1 ''red'' = Some (grid yx (1/4))"
    by (simp add: stack_no_swir1_def data_vars_stack_of)
  have h3: "data_vars stack_no_swir1 ''green'' = Some (grid yx (1/4))"
    by (simp add: stack_no_swir1_def data_vars_stack_of)
  have h4: "dims (grid yx (1/4)) = dims (grid yx (1/2))"
    by (simp add: dims_grid)
  from index_range_nonnegative [OF h1 h2 h3 h4 h4] obtain v w where
    v: "data_vars (snd (calculate_band_indices stack_no_swir1)) ''ndvi'' = Some v"
    and w: "data_vars (snd (calculate_band_indices stack_no_swir1)) ''ndwi'' = Some w"
    and rv: "\<forall>idx a b. data (grid yx (1/2)) idx = Fin a \<and> data (grid yx (1/4)) idx = Fin b \<and>
      0 \<le> a \<and> 0 \<le> b \<and> a + b \<noteq> 0 \<longrightarrow> in_unit_range (data v idx)"
    and rw: "\<forall>idx a b. data (grid yx (1/4)) idx = Fin a \<and> data (grid yx (1/2)) idx = Fin b \<and>
      0 \<le> a \<and> 0 \<le> b \<and> a + b \<noteq> 0 \<longrightarrow> in_unit_range (data w idx)"
    by blast
  have "\<forall>idx. in_unit_range (data v idx)"
  proof
    fix idx
    from rv have "data (grid yx (1/2)) idx = Fin (1/2) \<and> data (grid yx (1/4)) idx = Fin (1/4) \<and>
      (0::real) \<le> 1/2 \<and> (0::real) \<le> 1/4 \<and> (1/2::real) + 1/4 \<noteq> 0 \<longrightarrow>
      in_unit_range (data v idx)"
      by blast
    then show "in_unit_range (data v idx)"
      by (simp add: data_grid)
  qed
  moreover have "\<forall>idx. in_unit_range (data w idx)"
  proof
    fix idx
    from rw have "data (grid yx (1/4)) idx = Fin (1/4) \<and> data (grid yx (1/2)) idx = Fin (1/2) \<and>
      (0::real) \<le> 1/4 \<and> (0::real) \<le> 1/2 \<and> (1/4::real) + 1/2 \<noteq> 0 \<longrightarrow>
      in_unit_range (data w idx)"
      by blast
    then show "in_unit_range (data w idx)"
      by (simp add: data_grid)
  qed
  ultimately show ?thesis
    using h1 h2 h3 v w by blast
qed

section \<open>Zero denominators\<close>

lemma zero_divisor_non_finite: "d = Fin 0 \<Longrightarrow> non_finite (fdiv z d)"
  by (cases z) (simp_all add: non_finite_def)

text \<open>
  Claim C7. On every stack that has the four bands the call returns normally, whatever
  the samples are. At every position where the divisor of an index is zero, the sample of
  the index is an infinity or not-a-number, not a finite value put in its place; at every
  position where the bands are finite and the divisor is not zero, the sample is the
  quotient. A zero divisor at one position changes nothing at another.
\<close>

theorem zero_denominator_propagates:
  assumes "data_vars dc ''nir'' = Some n" and "data_vars dc ''red'' = Some r"
    and "data_vars dc ''green'' = Some g" and "data_vars dc ''swir1'' = Some s"
  shows "fst (calculate_band_indices dc) = None \<and>
    (\<exists>v w m. data_vars (snd (calculate_band_indices dc)) ''ndvi'' = Some v \<and>
       data_vars (snd (calculate_band_indices dc)) ''ndwi'' = Some w \<and>
       data_vars (snd (calculate_band_indices dc)) ''mndwi'' = Some m \<and>
       (\<forall>idx. (fadd (data n idx) (data r idx) = Fin 0 \<longrightarrow> non_finite (data v idx)) \<and>
              (fadd (data g idx) (data n idx) = Fin 0 \<longrightarrow> non_finite (data w idx)) \<and>
              (fadd (data n idx) (data s idx) = Fin 0 \<longrightarrow> non_finite (data m idx))) \<and>
       (\<forall>idx a b. data n idx = Fin a \<and> data r idx = Fin b \<and> a + b \<noteq> 0 \<longrightarrow>
              data v idx = Fin ((a - b) / (a + b))) \<and>
       (\<forall>idx a b. data g idx = Fin a \<and> data n idx = Fin b \<and> a + b \<noteq> 0 \<longrightarrow>
              data w idx = Fin ((a - b) / (a + b))) \<and>
       (\<forall>idx a b c. data g idx = Fin a \<and> data s idx = Fin b \<and> data n idx = Fin c \<and>
              c + b \<noteq> 0 \<longrightarrow> data m idx = Fin ((a - b) / (c + b))))"
proof -
  let ?v = "da_truediv (da_sub n r) (da_add n r)"
  let ?w = "da_truediv (da_sub g n) (da_add g n)"
  let ?m = "da_truediv (da_sub g s) (da_add n s)"
  have ok: "fst (calculate_band_indices dc) = None"
    using assms by (simp add: calc_all)
  have v: "data_vars (snd (calculate_band_indices dc)) ''ndvi'' = Some ?v"
    using assms(1,2) by (rule ndvi_attached)
  have w: "data_vars (snd (calculate_band_indices dc)) ''ndwi'' = Some ?w"
    using assms(1-3) by (rule ndwi_attached)
  have m: "data_vars (snd (calculate_band_indices dc)) ''mndwi'' = Some ?m"
    using assms by (simp add: calc_all data_vars_setitem)
  have z: "\<forall>idx. (fadd (data n idx) (data r idx) = Fin 0 \<longrightarrow> non_finite (data ?v idx)) \<and>
      (fadd (data g idx) (data n idx) = Fin 0 \<longrightarrow> non_finite (data ?w idx)) \<and>
      (fadd (data n idx) (data s idx) = Fin 0 \<longrightarrow> non_finite (data ?m idx))"
    by (simp add: data_index zero_divisor_non_finite)
  have nv: "\<forall>idx a b. data n idx = Fin a \<and> data r idx = Fin b \<and> a + b \<noteq> 0 \<longrightarrow>
      data ?v idx = Fin ((a - b) / (a + b))"
    by (simp add: data_index fsub_def)
  have nw: "\<forall>idx a b. data g idx = Fin a \<and> data n idx = Fin b \<and> a + b \<noteq> 0 \<longrightarrow>
      data ?w idx = Fin ((a - b) / (a + b))"
    by (simp add: data_index fsub_def)
  have nm: "\<forall>idx a b c. data g idx = Fin a \<and> data s idx = Fin b \<and> data n idx = Fin c \<and>
      c + b \<noteq> 0 \<longrightarrow> data ?m idx = Fin ((a - b) / (c + b))"
    by (simp add: data_index fsub_def)
  from ok v w m z nv nw nm show ?thesis by blast
qed

text \<open>
  C7 on a stack of two columns. In the first column every divisor is zero:
  \<open>nir = 0.5\<close> against \<open>red = green = swir1 = -0.5\<close>; in the second column
  \<open>nir = 0.3\<close>, \<open>red = 0.1\<close>, \<open>green = 0.2\<close>, \<open>swir1 = 0.1\<close>. The first column of
  each index is an infinity or not-a-number, the second is \<open>1/2\<close>, \<open>-1/5\<close> and
  \<open>1/4\<close>.
\<close>

theorem zero_denominator_propagates_witness:
  "data_vars stack_zero_sums ''nir'' = Some (row2 (1/2) (3/10)) \<and>
   data_vars stack_zero_sums ''red'' = Some (row2 (- 1/2) (1/10)) \<and>
   data_vars stack_zero_sums ''green'' = Some (row2 (- 1/2) (1/5)) \<and>
   data_vars stack_zero_sums ''swir1'' = Some (row2 (- 1/2) (1/10)) \<and>
   fst (calculate_band_indices stack_zero_sums) = None \<and>
   (\<exists>v w m. data_vars (snd (calculate_band_indices stack_zero_sums)) ''ndvi'' = Some v \<and>
      data_vars (snd (calculate_band_indices stack_zero_sums)) ''ndwi'' = Some w \<and>
      data_vars (snd (calculate_band_indices stack_zero_sums)) ''mndwi'' = Some m \<and>
      non_finite (data v (\<lambda>d. 0)) \<and> non_finite (data w (\<lambda>d. 0)) \<and>
      non_finite (data m (\<lambda>d. 0)) \<and>
      data v (\<lambda>d. if d = ''x'' then 1 else 0) = Fin (1/2) \<and>
      data w (\<lambda>d. if d = ''x'' then 1 else 0) = Fin (- 1/5) \<and>
      data m (\<lambda>d. if d = ''x'' then 1 else 0) = Fin (1/4))"
proof -
  let ?n = "row2 (1/2) (3/10)" and ?r = "row2 (- 1/2) (1/10)"
  let ?g = "row2 (- 1/2) (1/5)" and ?s = "row2 (- 1/2) (1/10)"
  let ?i0 = "(\<lambda>d. 0) :: index" and ?i1 = "(\<lambda>d. if d = ''x'' then 1 else 0) :: index"
  have h1: "data_vars stack_zero_sums ''nir'' = Some ?n"
    by (simp add: stack_zero_sums_def data_vars_stack_of)
  have h2: "data_vars stack_zero_sums ''red'' = Some ?r"
    by (simp add: stack_zero_sums_def data_vars_stack_of)
  have h3: "data_vars stack_zero_sums ''green'' = Some ?g"
    by (simp add: stack_zero_sums_def data_vars_stack_of)
  have h4: "data_vars stack_zero_sums ''swir1'' = Some ?s"
    by (simp add: stack_zero_sums_def data_vars_stack_of)
  from zero_denominator_propagates [OF h1 h2 h3 h4]
  have ok: "fst (calculate_band_indices stack_zero_sums) = None"
    by blast
  from zero_denominator_propagates [OF h1 h2 h3 h4] obtain v w m where
    v: "data_vars (snd (calculate_band_indices stack_zero_sums)) ''ndvi'' = Some v"
    and w: "data_vars (snd (calculate_band_indices stack_zero_sums)) ''ndwi'' = Some w"
    and m: "data_vars (snd (calculate_band_indices stack_zero_sums)) ''mndwi'' = Some m"
    and z: "\<forall>idx. (fadd (data ?n idx) (data ?r idx) = Fin 0 \<longrightarrow> non_finite (data v idx)) \<and>
      (fadd (data ?g idx) (data ?n idx) = Fin 0 \<longrightarrow> non_finite (data w idx)) \<and>
      (fadd (data ?n idx) (data ?s idx) = Fin 0 \<longrightarrow> non_finite (data m idx))"
    and nv: "\<forall>idx a b. data ?n idx = Fin a \<and> data ?r idx = Fin b \<and> a + b \<noteq> 0 \<longrightarrow>
      data v idx = Fin ((a - b) / (a + b))"
    and nw: "\<forall>idx a b. data ?g idx = Fin a \<and> data ?n idx = Fin b \<and> a + b \<noteq> 0 \<longrightarrow>
      data w idx = Fin ((a - b) / (a + b))"
    and nm: "\<forall>idx a b c. data ?g idx = Fin a \<and> data ?s idx = Fin b \<and> data ?n idx = Fin c \<and>
      c + b \<noteq> 0 \<longrightarrow> data m idx = Fin ((a - b) / (c + b))"
    by blast
  from z have "(fadd (data ?n ?i0) (data ?r ?i0) = Fin 0 \<longrightarrow> non_finite (data v ?i0)) \<and>
      (fadd (data ?g ?i0) (data ?n ?i0) = Fin 0 \<longrightarrow> non_finite (data w ?i0)) \<and>
      (fadd (data ?n ?i0) (data ?s ?i0) = Fin 0 \<longrightarrow> non_finite (data m ?i0))"
    by blast
  then have z0: "non_finite (data v ?i0) \<and> non_finite (data w ?i0) \<and> non_finite (data m ?i0)"
    by (simp add: row2_def)
  from nv have "data ?n ?i1 = Fin (3/10) \<and> data ?r ?i1 = Fin (1/10) \<and>
      (3/10::real) + 1/10 \<noteq> 0 \<longrightarrow> data v ?i1 = Fin ((3/10 - 1/10) / (3/10 + 1/10))"
    by blast
  then have v1: "data v ?i1 = Fin (1/2)"
    by (simp add: row2_def)
  from nw have "data ?g ?i1 = Fin (1/5) \<and> data ?n ?i1 = Fin (3/10) \<and>
      (1/5::real) + 3/10 \<noteq> 0 \<longrightarrow> data w ?i1 = Fin ((1/5 - 3/10) / (1/5 + 3/10))"
    by blast
  then have w1: "data w ?i1 = Fin (- 1/5)"
    by (simp add: row2_def)
  from nm have "data ?g ?i1 = Fin (1/5) \<and> data ?s ?i1 = Fin (1/10) \<and>
      data ?n ?i1 = Fin (3/10) \<and> (3/10::real) + 1/10 \<noteq> 0 \<longrightarrow>
      data m ?i1 = Fin ((1/5 - 1/10) / (3/10 + 1/10))"
    by blast
  then have m1: "data m ?i1 = Fin (1/4)"
    by (simp add: row2_def)
  from h1 h2 h3 h4 ok v w m z0 v1 w1 m1 show ?thesis by blast
qed

section \<open>What the call changes\<close>

text \<open>
  Claim C8. On every stack that has \<open>nir\<close>, \<open>red\<close>, \<open>green\<close> and \<open>swir1\<close> the call
  returns normally and the names of the stack afterwards are those it had together with
  \<open>ndvi\<close>, \<open>ndwi\<close> and \<open>mndwi\<close>. Every layer under another name is what it was: so
  are the four bands and \<open>blue\<close>, and no name is lost; the lengths of the dimensions are
  what they were. When the four bands are over the same dimensions, each of the three
  layers has the shape of the bands.
\<close>

theorem attaches_three_layers:
  assumes "data_vars dc ''nir'' = Some n" and "data_vars dc ''red'' = Some r"
    and "data_vars dc ''green'' = Some g" and "data_vars dc ''swir1'' = Some s"
  shows "\<exists>dc'. calculate_band_indices dc = (None, dc') \<and>
     dom (data_vars dc') = dom (data_vars dc) \<union> {''ndvi'', ''ndwi'', ''mndwi''} \<and>
     (\<forall>name. name \<notin> {''ndvi'', ''ndwi'', ''mndwi''} \<longrightarrow>
        data_vars dc' name = data_vars dc name) \<and>
     data_vars dc' ''nir'' = Some n \<and> data_vars dc' ''red'' = Some r \<and>
     data_vars dc' ''green'' = Some g \<and> data_vars dc' ''swir1'' = Some s \<and>
     data_vars dc' ''blue'' = data_vars dc ''blue'' \<and>
     sizes dc' = sizes dc \<and>
     (dims r = dims n \<and> dims g = dims n \<and> dims s = dims n \<longrightarrow>
        (\<forall>name \<in> {''ndvi'', ''ndwi'', ''mndwi''}.
           \<exists>v. data_vars dc' name = Some v \<and> shape dc' v = shape dc n))"
proof -
  let ?dc' = "setitem (setitem (setitem dc ''ndvi'' (da_truediv (da_sub n r) (da_add n r)))
        ''ndwi'' (da_truediv (da_sub g n) (da_add g n)))
        ''mndwi'' (da_truediv (da_sub g s) (da_add n s))"
  have c: "calculate_band_indices dc = (None, ?dc')"
    using assms by (rule calc_all)
  have d: "dom (data_vars ?dc') = dom (data_vars dc) \<union> {''ndvi'', ''ndwi'', ''mndwi''}"
    by (auto simp add: data_vars_setitem)
  have f: "\<forall>name. name \<notin> {''ndvi'', ''ndwi'', ''mndwi''} \<longrightarrow>
      data_vars ?dc' name = data_vars dc name"
    by (simp add: data_vars_setitem)
  have b: "data_vars ?dc' ''nir'' = Some n \<and> data_vars ?dc' ''red'' = Some r \<and>
      data_vars ?dc' ''green'' = Some g \<and> data_vars ?dc' ''swir1'' = Some s \<and>
      data_vars ?dc' ''blue'' = data_vars dc ''blue''"
    using assms by (simp add: data_vars_setitem)
  have s: "sizes ?dc' = sizes dc"
    by (simp add: sizes_setitem)
  have sh: "dims r = dims n \<and> dims g = dims n \<and> dims s = dims n \<longrightarrow>
      (\<forall>name \<in> {''ndvi'', ''ndwi'', ''mndwi''}.
         \<exists>v. data_vars ?dc' name = Some v \<and> shape ?dc' v = shape dc n)"
    by (simp add: data_vars_setitem shape_def sizes_setitem dims_index)
  from c d f b s sh show ?thesis by blast
qed

text \<open>C8 on a stack of five one-by-one bands, \<open>blue\<close> among them.\<close>

theorem attaches_three_layers_witness:
  "data_vars stack_full ''nir'' = Some (grid yx (3/10)) \<and>
   data_vars stack_full ''red'' = Some (grid yx (1/10)) \<and>
   data_vars stack_full ''green'' = Some (grid yx (1/5)) \<and>
   data_vars stack_full ''swir1'' = Some (grid yx (1/10)) \<and>
   (\<exists>dc'. calculate_band_indices stack_full = (None, dc') \<and>
      dom (data_vars dc') =
        {''ndvi'', ''ndwi'', ''mndwi'', ''nir'', ''red'', ''swir1'', ''green'', ''blue''} \<and>
      data_vars dc' ''nir'' = Some (grid yx (3/10)) \<and>
      data_vars dc' ''red'' = Some (grid yx (1/10)) \<and>
      data_vars dc' ''green'' = Some (grid yx (1/5)) \<and>
      data_vars dc' ''swir1'' = Some (grid yx (1/10)) \<and>
      data_vars dc' ''blue'' = Some (grid yx (1/20)) \<and>
      (\<exists>v. data_vars dc' ''ndvi'' = Some v \<and> shape dc' v = [1, 1]) \<and>
      (\<exists>v. data_vars dc' ''ndwi'' = Some v \<and> shape dc' v = [1, 1]) \<and>
      (\<exists>v. data_vars dc' ''mndwi'' = Some v \<and> shape dc' v = [1, 1]))"
proof -
  have h1: "data_vars stack_full ''nir'' = Some (grid yx (3/10))"
    by (simp add: stack_full_def data_vars_stack_of)
  have h2: "data_vars stack_full ''red'' = Some (grid yx (1/10))"
    by (simp add: stack_full_def data_vars_stack_of)
  have h3: "data_vars stack_full ''green'' = Some (grid yx (1/5))"
    by (simp add: stack_full_def data_vars_stack_of)
  have h4: "data_vars stack_full ''swir1'' = Some (grid yx (1/10))"
    by (simp add: stack_full_def data_vars_stack_of)
  have bl: "data_vars stack_full ''blue'' = Some (grid yx (1/20))"
    by (simp add: stack_full_def data_vars_stack_of)
  have dm: "dom (data_vars stack_full) = {''nir'', ''red'', ''swir1'', ''green'', ''blue''}"
    by (simp add: stack_full_def data_vars_stack_of dom_map_of_conv_image_fst)
  have sp: "shape stack_full (grid yx (3/10)) = [1, 1]"
    by (simp add: shape_def stack_full_def sizes_stack_of dims_grid yx_def one_by_one_def)
  from attaches_three_layers [OF h1 h2 h3 h4] obtain dc' where
    c: "calculate_band_indices stack_full = (None, dc')"
    and d: "dom (data_vars dc') = dom (data_vars stack_full) \<union> {''ndvi'', ''ndwi'', ''mndwi''}"
    and fr: "\<forall>name. name \<notin> {''ndvi'', ''ndwi'', ''mndwi''} \<longrightarrow>
        data_vars dc' name = data_vars stack_full name"
    and b: "data_vars dc' ''nir'' = Some (grid yx (3/10))"
      "data_vars dc' ''red'' = Some (grid yx (1/10))"
      "data_vars dc' ''green'' = Some (grid yx (1/5))"
      "data_vars dc' ''swir1'' = Some (grid yx (1/10))"
      "data_vars dc' ''blue'' = data_vars stack_full ''blue''"
    and sz: "sizes dc' = sizes stack_full"
    and sh: "dims (grid yx (1/10)) = dims (grid yx (3/10)) \<and>
      dims (grid yx (1/5)) = dims (grid yx (3/10)) \<and>
      dims (grid yx (1/10)) = dims (grid yx (3/10)) \<longrightarrow>
      (\<forall>name \<in> {''ndvi'', ''ndwi'', ''mndwi''}.
         \<exists>v. data_vars dc' name = Some v \<and> shape dc' v = shape stack_full (grid yx (3/10)))"
    by (elim exE conjE) (rule that)
  from sh sp have l: "\<forall>name \<in> {''ndvi'', ''ndwi'', ''mndwi''}.
      \<exists>v. data_vars dc' name = Some v \<and> shape dc' v = [1, 1]"
    by (simp add: dims_grid)
  from d dm have d': "dom (data_vars dc') =
      {''ndvi'', ''ndwi'', ''mndwi'', ''nir'', ''red'', ''swir1'', ''green'', ''blue''}"
    by (simp only: Un_insert_right Un_empty_right)
  from l have l1: "\<exists>v. data_vars dc' ''ndvi'' = Some v \<and> shape dc' v = [1, 1]"
    and l2: "\<exists>v. data_vars dc' ''ndwi'' = Some v \<and> shape dc' v = [1, 1]"
    and l3: "\<exists>v. data_vars dc' ''mndwi'' = Some v \<and> shape dc' v = [1, 1]"
    by simp_all
  from b(5) bl have bl': "data_vars dc' ''blue'' = Some (grid yx (1/20))"
    by (simp only:)
  from h1 h2 h3 h4 c d' b(1-4) bl' l1 l2 l3 show ?thesis by blast
qed

section \<open>Calling twice, and what the result depends on\<close>

text \<open>
  Claim C9. A second call on the stack the first call left behaves as the first did and
  leaves the stack as the first left it: each layer is stored again with the value it
  already had, since no statement reads \<open>ndvi\<close>, \<open>ndwi\<close> or \<open>mndwi\<close>. This holds on
  every stack, also where the calls raise.
\<close>

theorem calculate_twice:
  "calculate_band_indices (snd (calculate_band_indices dc)) = calculate_band_indices dc"
proof (cases "data_vars dc ''nir''")
  case None
  then show ?thesis by (simp add: calc_no_nir)
next
  case n: (Some n)
  show ?thesis
  proof (cases "data_vars dc ''red''")
    case None
    with n show ?thesis by (simp add: calc_no_red)
  next
    case r: (Some r)
    let ?v = "da_truediv (da_sub n r) (da_add n r)"
    show ?thesis
    proof (cases "data_vars dc ''green''")
      case None
      with n r have 1: "calculate_band_indices dc =
          (Some (AttributeError ''green''), setitem dc ''ndvi'' ?v)"
        by (simp add: calc_no_green)
      have "calculate_band_indices (setitem dc ''ndvi'' ?v) =
          (Some (AttributeError ''green''), setitem (setitem dc ''ndvi'' ?v) ''ndvi'' ?v)"
        using n r None by (intro calc_no_green) (simp_all add: data_vars_setitem)
      with 1 show ?thesis by (simp add: setitem_again)
    next
      case g: (Some g)
      let ?w = "da_truediv (da_sub g n) (da_add g n)"
      let ?dc2 = "setitem (setitem dc ''ndvi'' ?v) ''ndwi'' ?w"
      show ?thesis
      proof (cases "data_vars dc ''swir1''")
        case None
        with n r g have 1: "calculate_band_indices dc =
            (Some (AttributeError ''swir1''), ?dc2)"
          by (simp add: calc_no_swir1)
        have "calculate_band_indices ?dc2 =
            (Some (AttributeError ''swir1''),
             setitem (setitem ?dc2 ''ndvi'' ?v) ''ndwi'' ?w)"
          using n r g None by (intro calc_no_swir1) (simp_all add: data_vars_setitem)
        moreover have "setitem (setitem ?dc2 ''ndvi'' ?v) ''ndwi'' ?w = ?dc2"
          by (simp add: setitem_def fun_upd_twist)
        ultimately show ?thesis using 1 by simp
      next
        case s: (Some s)
        let ?m = "da_truediv (da_sub g s) (da_add n s)"
        let ?dc3 = "setitem ?dc2 ''mndwi'' ?m"
        from n r g s have 1: "calculate_band_indices dc = (None, ?dc3)"
          by (simp add: calc_all)
        have "calculate_band_indices ?dc3 =
            (None, setitem (setitem (setitem ?dc3 ''ndvi'' ?v) ''ndwi'' ?w) ''mndwi'' ?m)"
          using n r g s by (intro calc_all) (simp_all add: data_vars_setitem)
        moreover
        have "setitem (setitem (setitem ?dc3 ''ndvi'' ?v) ''ndwi'' ?w) ''mndwi'' ?m = ?dc3"
          by (simp add: setitem_def fun_upd_twist)
        ultimately show ?thesis using 1 by simp
      qed
    qed
  qed
qed

text \<open>C9 on a stack with all four bands and on one without \<open>swir1\<close>.\<close>

theorem calculate_twice_witness:
  "calculate_band_indices (snd (calculate_band_indices stack_full)) =
     calculate_band_indices stack_full \<and>
   calculate_band_indices (snd (calculate_band_indices stack_no_swir1)) =
     calculate_band_indices stack_no_swir1"
  using calculate_twice [of stack_full] calculate_twice [of stack_no_swir1]
  by (rule conjI)

text \<open>
  Claim C10. Two stacks that agree on \<open>nir\<close>, \<open>red\<close>, \<open>green\<close> and \<open>swir1\<close> make
  the call end the same way, and every layer the call attaches is the same on both:
  \<open>ndvi\<close> once \<open>nir\<close> and \<open>red\<close> are there, \<open>ndwi\<close> once \<open>green\<close> is there too,
  \<open>mndwi\<close> once all four are. What else the stacks hold, other bands or layers left by
  an earlier call, has no part in it.
\<close>

theorem indices_depend_on_four_bands:
  assumes "\<forall>b \<in> {''nir'', ''red'', ''green'', ''swir1''}. data_vars dc1 b = data_vars dc2 b"
  shows "fst (calculate_band_indices dc1) = fst (calculate_band_indices dc2) \<and>
    (data_vars dc1 ''nir'' \<noteq> None \<and> data_vars dc1 ''red'' \<noteq> None \<longrightarrow>
       data_vars (snd (calculate_band_indices dc1)) ''ndvi'' =
       data_vars (snd (calculate_band_indices dc2)) ''ndvi'') \<and>
    (data_vars dc1 ''nir'' \<noteq> None \<and> data_vars dc1 ''red'' \<noteq> None \<and>
     data_vars dc1 ''green'' \<noteq> None \<longrightarrow>
       data_vars (snd (calculate_band_indices dc1)) ''ndwi'' =
       data_vars (snd (calculate_band_indices dc2)) ''ndwi'') \<and>
    (data_vars dc1 ''nir'' \<noteq> None \<and> data_vars dc1 ''red'' \<noteq> None \<and>
     data_vars dc1 ''green'' \<noteq> None \<and> data_vars dc1 ''swir1'' \<noteq> None \<longrightarrow>
       data_vars (snd (calculate_band_indices dc1)) ''mndwi'' =
       data_vars (snd (calculate_band_indices dc2)) ''mndwi'')"
proof -
  from assms have e: "data_vars dc2 ''nir'' = data_vars dc1 ''nir''"
    "data_vars dc2 ''red'' = data_vars dc1 ''red''"
    "data_vars dc2 ''green'' = data_vars dc1 ''green''"
    "data_vars dc2 ''swir1'' = data_vars dc1 ''swir1''"
    by simp_all
  show ?thesis
    by (simp add: calc_cases [of dc1] calc_cases [of dc2] e data_vars_setitem
        split: option.splits)
qed

text \<open>
  C10 on two stacks with the same four bands: the second has another \<open>blue\<close> and
  already holds a layer \<open>ndvi\<close>, the first holds none.
\<close>

theorem indices_depend_on_four_bands_witness:
  "data_vars stack_full ''nir'' = data_vars stack_full_other ''nir'' \<and>
   data_vars stack_full ''red'' = data_vars stack_full_other ''red'' \<and>
   data_vars stack_full ''green'' = data_vars stack_full_other ''green'' \<and>
   data_vars stack_full ''swir1'' = data_vars stack_full_other ''swir1'' \<and>
   data_vars stack_full ''blue'' \<noteq> data_vars stack_full_other ''blue'' \<and>
   data_vars stack_full ''ndvi'' \<noteq> data_vars stack_full_other ''ndvi'' \<and>
   fst (calculate_band_indices stack_full) = fst (calculate_band_indices stack_full_other) \<and>
   data_vars (snd (calculate_band_indices stack_full)) ''ndvi'' =
     data_vars (snd (calculate_band_indices stack_full_other)) ''ndvi'' \<and>
   data_vars (snd (calculate_band_indices stack_full)) ''ndwi'' =
     data_vars (snd (calculate_band_indices stack_full_other)) ''ndwi'' \<and>
   data_vars (snd (calculate_band_indices stack_full)) ''mndwi'' =
     data_vars (snd (calculate_band_indices stack_full_other)) ''mndwi''"
proof -
  have a: "data_vars stack_full ''nir'' = data_vars stack_full_other ''nir''"
    "data_vars stack_full ''red'' = data_vars stack_full_other ''red''"
    "data_vars stack_full ''green'' = data_vars stack_full_other ''green''"
    "data_vars stack_full ''swir1'' = data_vars stack_full_other ''swir1''"
    by (simp_all add: stack_full_def stack_full_other_def data_vars_stack_of)
  then have h: "\<forall>b \<in> {''nir'', ''red'', ''green'', ''swir1''}.
      data_vars stack_full b = data_vars stack_full_other b"
    by simp
  have p: "data_vars stack_full ''nir'' \<noteq> None" "data_vars stack_full ''red'' \<noteq> None"
    "data_vars stack_full ''green'' \<noteq> None" "data_vars stack_full ''swir1'' \<noteq> None"
    by (simp_all add: stack_full_def data_vars_stack_of)
  have "data (grid yx (1/20)) (\<lambda>d. 0) \<noteq> data (grid yx (9/10)) (\<lambda>d. 0)"
    by (simp add: data_grid)
  then have "grid yx (1/20) \<noteq> grid yx (9/10)"
    by metis
  then have bl: "data_vars stack_full ''blue'' \<noteq> data_vars stack_full_other ''blue''"
    by (simp add: stack_full_def stack_full_other_def data_vars_stack_of)
  have nd: "data_vars stack_full ''ndvi'' \<noteq> data_vars stack_full_other ''ndvi''"
    by (simp add: stack_full_def stack_full_other_def data_vars_stack_of)
  from indices_depend_on_four_bands [OF h] p a bl nd show ?thesis
    by simp
qed

end
